theory Spec2Isabelle
  imports Complex_Main
begin

section \<open>Python values used by the rule engine\<close>

text \<open>
  The engine of \<^verbatim>\<open>SD23041_LR3.py\<close> is the pair \<^verbatim>\<open>evaluate_condition\<close> and
  \<^verbatim>\<open>apply_rules\<close>. Rules come from \<^verbatim>\<open>json.loads\<close>, facts are a dict of floats.
  Exceptions are values: a function that can raise returns \<open>pyerr + 'a\<close>, with
  \<open>Inl\<close> the exception that leaves the function.
\<close>

datatype pyerr = TypeError | ValueError | OverflowError

subsection \<open>Floats\<close>

text \<open>
  A Python float is an IEEE binary64 value: a finite number (kept as the rational it
  denotes), an infinity or a NaN. The two zeros compare equal and are both \<open>Finite 0\<close>.
\<close>

datatype pyfloat = Finite rat | PosInf | NegInf | NaN

fun float_eq :: "pyfloat \<Rightarrow> pyfloat \<Rightarrow> bool" where
  "float_eq NaN _ = False"
| "float_eq _ NaN = False"
| "float_eq a b = (a = b)"

fun float_lt :: "pyfloat \<Rightarrow> pyfloat \<Rightarrow> bool" where
  "float_lt NaN _ = False"
| "float_lt _ NaN = False"
| "float_lt (Finite x) (Finite y) = (x < y)"
| "float_lt (Finite x) PosInf = True"
| "float_lt NegInf (Finite y) = True"
| "float_lt NegInf PosInf = True"
| "float_lt _ _ = False"

definition float_le :: "pyfloat \<Rightarrow> pyfloat \<Rightarrow> bool" where
  "float_le a b = (float_lt a b \<or> float_eq a b)"

text \<open>
  Conversion of an exact value \<open>n / d\<close> (with \<open>0 < d\<close>) to binary64: round to nearest,
  ties to even, 53 significant bits, exponents from \<open>-1022\<close> (below that the spacing
  stays \<open>2 ^ -1074\<close>) to \<open>1023\<close>; a result of \<open>2 ^ 1024\<close> or more is an infinity.
\<close>

definition pow2 :: "int \<Rightarrow> rat" where
  "pow2 e = (if 0 \<le> e then 2 ^ nat e else 1 / 2 ^ nat (- e))"

function bit_length :: "int \<Rightarrow> int" where
  "bit_length n = (if n \<le> 0 then 0 else bit_length (n div 2) + 1)"
  by pat_completeness auto
termination
  by (relation "measure nat") auto

declare bit_length.simps [simp del]

text \<open>\<open>floor_log2 n d\<close> is the \<open>e\<close> with \<open>2 ^ e \<le> n / d < 2 ^ (e + 1)\<close>, for positive
  \<open>n\<close> and \<open>d\<close>.\<close>

definition floor_log2 :: "int \<Rightarrow> int \<Rightarrow> int" where
  "floor_log2 n d =
     (let k = bit_length n - bit_length d
      in if 0 \<le> k then (if d * 2 ^ nat k \<le> n then k else k - 1)
         else (if d \<le> n * 2 ^ nat (- k) then k else k - 1))"

definition round_half_even :: "int \<Rightarrow> int \<Rightarrow> int" where
  "round_half_even n d =
     (let q = n div d; r = n mod d
      in if 2 * r < d then q
         else if d < 2 * r then q + 1
         else if even q then q else q + 1)"

definition binary64_pos :: "int \<Rightarrow> int \<Rightarrow> pyfloat" where
  "binary64_pos n d =
     (let e = max (floor_log2 n d) (- 1022);
          s = e - 52;
          m = (if 0 \<le> s then round_half_even n (d * 2 ^ nat s)
               else round_half_even (n * 2 ^ nat (- s)) d)
      in if pow2 1024 \<le> of_int m * pow2 s then PosInf else Finite (of_int m * pow2 s))"

fun float_neg :: "pyfloat \<Rightarrow> pyfloat" where
  "float_neg (Finite x) = Finite (- x)"
| "float_neg PosInf = NegInf"
| "float_neg NegInf = PosInf"
| "float_neg NaN = NaN"

definition binary64 :: "int \<Rightarrow> int \<Rightarrow> pyfloat" where
  "binary64 n d =
     (if n = 0 then Finite 0
      else if 0 < n then binary64_pos n d
      else float_neg (binary64_pos (- n) d))"

subsection \<open>Strings\<close>

text \<open>
  A \<open>string\<close> stands for a Python \<^verbatim>\<open>str\<close> whose code points are below 256, one
  \<open>char\<close> per code point. The character classes are Python's on that range.
\<close>

definition is_space :: "char \<Rightarrow> bool" where
  "is_space c =
     (let n = (of_char c :: nat)
      in (9 \<le> n \<and> n \<le> 13) \<or> (28 \<le> n \<and> n \<le> 32) \<or> n = 133 \<or> n = 160)"

definition strip :: "string \<Rightarrow> string" where
  "strip s = rev (dropWhile is_space (rev (dropWhile is_space s)))"

definition is_ascii_digit :: "char \<Rightarrow> bool" where
  "is_ascii_digit c = (let n = (of_char c :: nat) in 48 \<le> n \<and> n \<le> 57)"

definition is_digit_char :: "char \<Rightarrow> bool" where
  "is_digit_char c =
     (let n = (of_char c :: nat)
      in (48 \<le> n \<and> n \<le> 57) \<or> n = 178 \<or> n = 179 \<or> n = 185)"

definition isdigit :: "string \<Rightarrow> bool" where
  "isdigit s = (s \<noteq> [] \<and> list_all is_digit_char s)"

definition remove_char :: "char \<Rightarrow> string \<Rightarrow> string" where
  "remove_char c s = filter (\<lambda>x. x \<noteq> c) s"

definition digit_val :: "char \<Rightarrow> nat" where
  "digit_val c = of_char c - 48"

definition digits_val :: "string \<Rightarrow> nat" where
  "digits_val ds = foldl (\<lambda>acc c. 10 * acc + digit_val c) 0 ds"

definition lower :: "char \<Rightarrow> char" where
  "lower c =
     (let n = (of_char c :: nat) in if 65 \<le> n \<and> n \<le> 90 then char_of (n + 32) else c)"

text \<open>\<^verbatim>\<open>str(n)\<close> for an int: its decimal digits, with a minus sign when negative.\<close>

function str_nat :: "nat \<Rightarrow> string" where
  "str_nat n =
     (if n < 10 then [char_of (48 + n)] else str_nat (n div 10) @ [char_of (48 + n mod 10)])"
  by pat_completeness auto
termination
  by (relation "measure id") auto

definition str_int :: "int \<Rightarrow> string" where
  "str_int n = (if n < 0 then CHR ''-'' # str_nat (nat (- n)) else str_nat (nat n))"

subsection \<open>The builtin \<^verbatim>\<open>float\<close>\<close>

text \<open>
  \<^verbatim>\<open>float(n)\<close> for an int rounds to the nearest float and raises OverflowError when
  that is out of range.
\<close>

definition float_of_int :: "int \<Rightarrow> pyerr + pyfloat" where
  "float_of_int n =
     (case binary64 n 1 of
        Finite r \<Rightarrow> Inr (Finite r)
      | _ \<Rightarrow> Inl OverflowError)"

text \<open>
  \<^verbatim>\<open>float(s)\<close> for a str: surrounding whitespace is dropped (the engine passes
  text that \<^verbatim>\<open>strip\<close> has cleared of it already); an underscore may stand between
  two digits only; then comes an optional sign and either \<^verbatim>\<open>inf\<close>,
  \<^verbatim>\<open>infinity\<close> or \<^verbatim>\<open>nan\<close> in any case, or digits with at most one dot (a digit on
  one side of it at least) and an optional exponent. Anything else raises ValueError. A
  number out of range becomes an infinity, not an exception.
\<close>

fun underscores_ok :: "char \<Rightarrow> string \<Rightarrow> bool" where
  "underscores_ok prev [] = (prev \<noteq> CHR ''_'')"
| "underscores_ok prev (c # cs) =
     (if c = CHR ''_'' then is_ascii_digit prev \<and> underscores_ok c cs
      else if prev = CHR ''_'' then is_ascii_digit c \<and> underscores_ok c cs
      else underscores_ok c cs)"

definition parse_sign :: "string \<Rightarrow> bool \<times> string" where
  "parse_sign s =
     (case s of
        [] \<Rightarrow> (False, [])
      | c # cs \<Rightarrow>
          if c = CHR ''-'' then (True, cs)
          else if c = CHR ''+'' then (False, cs)
          else (False, s))"

definition parse_fraction :: "string \<Rightarrow> string \<times> string" where
  "parse_fraction s =
     (case s of
        [] \<Rightarrow> ([], [])
      | c # cs \<Rightarrow>
          if c = CHR ''.'' then (takeWhile is_ascii_digit cs, dropWhile is_ascii_digit cs)
          else ([], s))"

definition parse_exponent :: "string \<Rightarrow> int \<times> string" where
  "parse_exponent s =
     (case s of
        [] \<Rightarrow> (0, [])
      | c # cs \<Rightarrow>
          if c = CHR ''e'' \<or> c = CHR ''E'' then
            (let (neg, r) = parse_sign cs;
                 ds = takeWhile is_ascii_digit r
             in if ds = [] then (0, s)
                else (if neg then - int (digits_val ds) else int (digits_val ds),
                      dropWhile is_ascii_digit r))
          else (0, s))"

text \<open>The float nearest to \<open>\<plusminus> m * 10 ^ e\<close>.\<close>

definition decimal_float :: "bool \<Rightarrow> int \<Rightarrow> int \<Rightarrow> pyfloat" where
  "decimal_float neg m e =
     (let f = (if 0 \<le> e then binary64 (m * 10 ^ nat e) 1 else binary64 m (10 ^ nat (- e)))
      in if neg then float_neg f else f)"

definition float_of_str :: "string \<Rightarrow> pyerr + pyfloat" where
  "float_of_str s0 =
     (let s = strip s0
      in if underscores_ok (char_of (0::nat)) s then
           (let (neg, body) = parse_sign (remove_char (CHR ''_'') s);
                low = map lower body
            in if low = ''inf'' \<or> low = ''infinity'' then Inr (if neg then NegInf else PosInf)
               else if low = ''nan'' then Inr NaN
               else
                 let ip = takeWhile is_ascii_digit body;
                     (fp, r2) = parse_fraction (dropWhile is_ascii_digit body);
                     (ex, r3) = parse_exponent r2
                 in if ip = [] \<and> fp = [] then Inl ValueError
                    else if r3 = [] then
                      Inr (decimal_float neg (int (digits_val (ip @ fp))) (ex - int (length fp)))
                    else Inl ValueError)
         else Inl ValueError)"

subsection \<open>JSON values\<close>

text \<open>
  The items of a condition are whatever \<^verbatim>\<open>json.loads\<close> produced. The engine looks at
  an item in three ways: \<^verbatim>\<open>str(x)\<close>, \<^verbatim>\<open>isinstance(x, (int, float))\<close> with
  \<^verbatim>\<open>float(x)\<close>, and \<^verbatim>\<open>x == "..."\<close>. A float carries the text \<^verbatim>\<open>str\<close> gives for it,
  and a JSON array or object is given by that text alone, since \<^verbatim>\<open>repr\<close> is not
  recomputed here.
\<close>

datatype pyval =
    PNone
  | PBool bool
  | PInt int
  | PFloat pyfloat string
  | PStr string
  | PContainer string

fun py_str :: "pyval \<Rightarrow> string" where
  "py_str PNone = ''None''"
| "py_str (PBool b) = (if b then ''True'' else ''False'')"
| "py_str (PInt n) = str_int n"
| "py_str (PFloat f txt) = txt"
| "py_str (PStr s) = s"
| "py_str (PContainer txt) = txt"

text \<open>\<^verbatim>\<open>isinstance(x, (int, float))\<close>: bool is a subclass of int.\<close>

fun is_int_or_float :: "pyval \<Rightarrow> bool" where
  "is_int_or_float (PBool b) = True"
| "is_int_or_float (PInt n) = True"
| "is_int_or_float (PFloat f txt) = True"
| "is_int_or_float _ = False"

fun py_float :: "pyval \<Rightarrow> pyerr + pyfloat" where
  "py_float (PBool b) = Inr (Finite (if b then 1 else 0))"
| "py_float (PInt n) = float_of_int n"
| "py_float (PFloat f txt) = Inr f"
| "py_float (PStr s) = float_of_str s"
| "py_float _ = Inl TypeError"

section \<open>The condition evaluator\<close>

type_synonym facts = "string \<rightharpoonup> pyfloat"

text \<open>After the conversion block \<^verbatim>\<open>value\<close> is a float or, for text that does not look
  numeric, the stripped text itself.\<close>

datatype operand = Num pyfloat | Txt string

definition convert_value :: "pyval \<Rightarrow> pyerr + operand" where
  "convert_value raw_value =
     (if is_int_or_float raw_value then map_sum id Num (py_float raw_value)
      else
        let value_str = strip (py_str raw_value)
        in if CHR ''.'' \<in> set value_str
              \<or> isdigit (remove_char (CHR ''.'') (remove_char (CHR ''-'') value_str))
           then map_sum id Num (float_of_str value_str)
           else Inr (Txt value_str))"

text \<open>The comparisons of a float \<^verbatim>\<open>val\<close> with \<^verbatim>\<open>value\<close>. A float never equals a
  str; ordering a float against a str raises TypeError.\<close>

fun py_eq :: "pyfloat \<Rightarrow> operand \<Rightarrow> bool" where
  "py_eq val (Num f) = float_eq val f"
| "py_eq val (Txt s) = False"

fun py_gt :: "pyfloat \<Rightarrow> operand \<Rightarrow> pyerr + bool" where
  "py_gt val (Num f) = Inr (float_lt f val)"
| "py_gt val (Txt s) = Inl TypeError"

fun py_ge :: "pyfloat \<Rightarrow> operand \<Rightarrow> pyerr + bool" where
  "py_ge val (Num f) = Inr (float_le f val)"
| "py_ge val (Txt s) = Inl TypeError"

fun py_lt :: "pyfloat \<Rightarrow> operand \<Rightarrow> pyerr + bool" where
  "py_lt val (Num f) = Inr (float_lt val f)"
| "py_lt val (Txt s) = Inl TypeError"

fun py_le :: "pyfloat \<Rightarrow> operand \<Rightarrow> pyerr + bool" where
  "py_le val (Num f) = Inr (float_le val f)"
| "py_le val (Txt s) = Inl TypeError"

definition compare :: "pyval \<Rightarrow> pyfloat \<Rightarrow> operand \<Rightarrow> pyerr + bool" where
  "compare op val value =
     (if op = PStr ''=='' then Inr (py_eq val value)
      else if op = PStr ''!='' then Inr (\<not> py_eq val value)
      else if op = PStr ''>'' then py_gt val value
      else if op = PStr ''>='' then py_ge val value
      else if op = PStr ''<'' then py_lt val value
      else if op = PStr ''<='' then py_le val value
      else Inr False)"

text \<open>
  A condition is an item of the rule's \<^verbatim>\<open>conditions\<close> array, whatever
  \<^verbatim>\<open>json.loads\<close> produced there. A list, a str and an object have a length, and
  unpacking takes them apart into their elements, their characters and their keys. A
  number, a bool and null have no length: \<^verbatim>\<open>len(condition)\<close>, the first statement
  of the function and outside its \<^verbatim>\<open>try\<close> block, raises TypeError on them.
\<close>

datatype condition =
    CList "pyval list"
  | CStr string
  | CDict "string list"
  | CNone
  | CBool bool
  | CInt int
  | CFloat pyfloat

fun unpack :: "condition \<Rightarrow> pyerr + pyval list" where
  "unpack (CList items) = Inr items"
| "unpack (CStr s) = Inr (map (\<lambda>c. PStr [c]) s)"
| "unpack (CDict keys) = Inr (map PStr keys)"
| "unpack _ = Inl TypeError"

definition evaluate_condition :: "condition \<Rightarrow> facts \<Rightarrow> pyerr + bool" where
  "evaluate_condition condition facts =
     (case unpack condition of
        Inl e \<Rightarrow> Inl e
      | Inr items \<Rightarrow>
          if length items \<noteq> 3 then Inr False
          else
            let field = items ! 0; op = items ! 1; raw_value = items ! 2
            in case facts (py_str field) of
                 None \<Rightarrow> Inr False
               | Some val \<Rightarrow>
                   (case convert_value raw_value of
                      Inl e \<Rightarrow> if e = ValueError \<or> e = TypeError then Inr False else Inl e
                    | Inr value \<Rightarrow> compare op val value))"

section \<open>The rule selector\<close>

text \<open>A rule is a dict; a key that is absent is \<open>None\<close> here.\<close>

record action =
  decision :: string
  reason :: string

record rule =
  name :: "string option"
  priority :: "int option"
  conditions :: "condition list option"
  action :: "action option"

definition get_priority :: "rule \<Rightarrow> int" where
  "get_priority x = (case priority x of None \<Rightarrow> 0 | Some p \<Rightarrow> p)"

definition get_conditions :: "rule \<Rightarrow> condition list" where
  "get_conditions r = (case conditions r of None \<Rightarrow> [] | Some cs \<Rightarrow> cs)"

text \<open>
  \<^verbatim>\<open>sorted(xs, key=k, reverse=True)\<close> returns a new list: the list is reversed, sorted
  stably by ascending key, and reversed again.
\<close>

definition sorted_reverse :: "('a \<Rightarrow> int) \<Rightarrow> 'a list \<Rightarrow> 'a list" where
  "sorted_reverse k xs = rev (sort_key k (rev xs))"

text \<open>\<^verbatim>\<open>all(evaluate_condition(cond, facts) for cond in conditions)\<close> stops at the
  first condition that is false, and an exception leaves it at once.\<close>

fun all_conditions :: "condition list \<Rightarrow> facts \<Rightarrow> pyerr + bool" where
  "all_conditions [] facts = Inr True"
| "all_conditions (cond # conds) facts =
     (case evaluate_condition cond facts of
        Inl e \<Rightarrow> Inl e
      | Inr b \<Rightarrow> if b then all_conditions conds facts else Inr False)"

type_synonym selection = "action option \<times> string option"

fun first_match :: "rule list \<Rightarrow> facts \<Rightarrow> pyerr + selection" where
  "first_match [] facts = Inr (None, None)"
| "first_match (r # rest) facts =
     (case all_conditions (get_conditions r) facts of
        Inl e \<Rightarrow> Inl e
      | Inr b \<Rightarrow> if b then Inr (action r, name r) else first_match rest facts)"

definition apply_rules :: "rule list \<Rightarrow> facts \<Rightarrow> pyerr + selection" where
  "apply_rules rules facts = first_match (sorted_reverse get_priority rules) facts"

section \<open>The engine on a store of objects\<close>

text \<open>
  The caller holds references to a list of rules and to a dict of facts. A store maps
  the addresses of live objects to their contents; \<open>fresh\<close> is the next address that
  \<^verbatim>\<open>sorted\<close>, the one allocation of the engine, will use. The engine reads the facts
  with \<^verbatim>\<open>facts.get\<close> and the rules by iteration and \<^verbatim>\<open>rule.get\<close>; it has no
  assignment to an item or key and calls no method that changes an object. A call on
  an address that holds no object of the expected kind is \<open>None\<close>.
\<close>

type_synonym addr = nat

record store =
  rule_lists :: "addr \<rightharpoonup> rule list"
  fact_dicts :: "addr \<rightharpoonup> facts"
  fresh :: addr

definition new_list :: "rule list \<Rightarrow> store \<Rightarrow> addr \<times> store" where
  "new_list xs s = (fresh s, s\<lparr>rule_lists := (rule_lists s)(fresh s \<mapsto> xs), fresh := Suc (fresh s)\<rparr>)"

definition evaluate_condition_st ::
  "condition \<Rightarrow> addr \<Rightarrow> store \<Rightarrow> ((pyerr + bool) \<times> store) option" where
  "evaluate_condition_st condition facts s =
     (case fact_dicts s facts of
        None \<Rightarrow> None
      | Some fs \<Rightarrow> Some (evaluate_condition condition fs, s))"

fun all_conditions_st ::
  "condition list \<Rightarrow> addr \<Rightarrow> store \<Rightarrow> ((pyerr + bool) \<times> store) option" where
  "all_conditions_st [] facts s = Some (Inr True, s)"
| "all_conditions_st (cond # conds) facts s =
     (case evaluate_condition_st cond facts s of
        None \<Rightarrow> None
      | Some (Inl e, s') \<Rightarrow> Some (Inl e, s')
      | Some (Inr b, s') \<Rightarrow> if b then all_conditions_st conds facts s' else Some (Inr False, s'))"

fun first_match_st ::
  "rule list \<Rightarrow> addr \<Rightarrow> store \<Rightarrow> ((pyerr + selection) \<times> store) option" where
  "first_match_st [] facts s = Some (Inr (None, None), s)"
| "first_match_st (r # rest) facts s =
     (case all_conditions_st (get_conditions r) facts s of
        None \<Rightarrow> None
      | Some (Inl e, s') \<Rightarrow> Some (Inl e, s')
      | Some (Inr b, s') \<Rightarrow>
          if b then Some (Inr (action r, name r), s') else first_match_st rest facts s')"

definition apply_rules_st ::
  "addr \<Rightarrow> addr \<Rightarrow> store \<Rightarrow> ((pyerr + selection) \<times> store) option" where
  "apply_rules_st rules facts s =
     (case rule_lists s rules of
        None \<Rightarrow> None
      | Some rs \<Rightarrow>
          (let (sorted_rules, s') = new_list (sorted_reverse get_priority rs) s
           in case rule_lists s' sorted_rules of
                None \<Rightarrow> None
              | Some srs \<Rightarrow> first_match_st srs facts s'))"

section \<open>Rules with their defaults written out\<close>

text \<open>
  \<open>with_defaults r\<close> is the rule \<open>r\<close> in which an absent \<^verbatim>\<open>priority\<close> key is written as
  \<open>0\<close> and an absent \<^verbatim>\<open>conditions\<close> key as the empty list: the second arguments of the
  two \<^verbatim>\<open>get\<close> calls of \<^verbatim>\<open>apply_rules\<close>. It is not part of the engine; it states what
  the engine is compared with.
\<close>

definition with_defaults :: "rule \<Rightarrow> rule" where
  "with_defaults r = r\<lparr>priority := Some (get_priority r), conditions := Some (get_conditions r)\<rparr>"

section \<open>Example rules\<close>

text \<open>The fourth default rule of the source, and two rules of an editor's making.\<close>

abbreviation low_cgpa :: rule where
  "low_cgpa \<equiv> \<lparr>name = Some ''Low CGPA - not eligible'', priority = Some 95,
     conditions = Some [CList [PStr ''cgpa'', PStr ''<'', PFloat (Finite (5 / 2)) ''2.5'']],
     action = Some \<lparr>decision = ''REJECT'',
       reason = ''CGPA below minimum scholarship requirement''\<rparr>\<rparr>"

abbreviation catch_all :: rule where
  "catch_all \<equiv> \<lparr>name = Some ''Catch-all'', priority = Some 50, conditions = Some [],
     action = Some \<lparr>decision = ''REVIEW'', reason = ''No other rule applies''\<rparr>\<rparr>"

abbreviation bare :: rule where
  "bare \<equiv> \<lparr>name = Some ''Bare'', priority = None, conditions = None,
     action = Some \<lparr>decision = ''REVIEW'', reason = ''Rule without conditions''\<rparr>\<rparr>"

abbreviation below :: rule where
  "below \<equiv> \<lparr>name = Some ''Below'', priority = Some (- 5), conditions = Some [],
     action = Some \<lparr>decision = ''REJECT'', reason = ''Last resort''\<rparr>\<rparr>"

text \<open>Two default rules in which an editor has typed a literal that is not a number.\<close>

abbreviation merit_typo :: rule where
  "merit_typo \<equiv> \<lparr>name = Some ''Top merit candidate'', priority = Some 100,
     conditions = Some [CList [PStr ''cgpa'', PStr ''>='', PStr ''3,7'']],
     action = Some \<lparr>decision = ''AWARD_FULL'',
       reason = ''Excellent academic & co-curricular performance, with acceptable need''\<rparr>\<rparr>"

abbreviation income_typo :: rule where
  "income_typo \<equiv> \<lparr>name = Some ''Need-based review'', priority = Some 70,
     conditions = Some [CList [PStr ''family_income'', PStr ''<='', PStr ''4000 RM'']],
     action = Some \<lparr>decision = ''REVIEW'',
       reason = ''High need but borderline academic score''\<rparr>\<rparr>"

text \<open>A rule in which an editor has written a number where a condition belongs.\<close>

abbreviation number_condition :: rule where
  "number_condition \<equiv> \<lparr>name = Some ''Low CGPA - not eligible'', priority = Some 95,
     conditions = Some [CInt 5],
     action = Some \<lparr>decision = ''REJECT'',
       reason = ''CGPA below minimum scholarship requirement''\<rparr>\<rparr>"

text \<open>Two stores that hold the same rules and the same facts at different addresses.\<close>

abbreviation store0 :: store where
  "store0 \<equiv> \<lparr>rule_lists = [0 \<mapsto> [catch_all, low_cgpa]],
     fact_dicts = [1 \<mapsto> [''cgpa'' \<mapsto> binary64 38 10]], fresh = 2\<rparr>"

abbreviation store1 :: store where
  "store1 \<equiv> \<lparr>rule_lists = [3 \<mapsto> [catch_all, low_cgpa], 4 \<mapsto> [below]],
     fact_dicts = [7 \<mapsto> [''cgpa'' \<mapsto> binary64 38 10]], fresh = 9\<rparr>"

section \<open>Evaluation of the library functions\<close>

lemmas float_eval =
  binary64_def binary64_pos_def floor_log2_def bit_length.simps round_half_even_def
  pow2_def Let_def

lemmas str_eval =
  strip_def is_space_def isdigit_def remove_char_def is_digit_char_def is_ascii_digit_def
  digit_val_def digits_val_def lower_def parse_sign_def parse_fraction_def
  parse_exponent_def float_of_str_def

lemma bit_length_eq: "2 ^ k \<le> n \<Longrightarrow> n < 2 ^ Suc k \<Longrightarrow> bit_length n = int k + 1"
proof (induction k arbitrary: n)
  case 0
  then have "n = 1" by simp
  then show ?case by (simp add: bit_length.simps)
next
  case (Suc k)
  have pos: "0 < n" using Suc.prems(1) by (smt (verit) zero_less_power)
  have lo: "2 ^ k \<le> n div 2" using Suc.prems(1) by simp
  have hi: "n div 2 < 2 ^ Suc k" using Suc.prems(2) by simp
  have "bit_length n = bit_length (n div 2) + 1"
    using pos by (subst bit_length.simps) simp
  with Suc.IH [OF lo hi] show ?case by simp
qed

section \<open>The conversion rounds to nearest\<close>

text \<open>
  What the text above says of the conversion: \<open>floor_log2\<close> finds the binade of
  \<open>n / d\<close>, and a finite result lies within half a spacing of \<open>n / d\<close>.
\<close>

lemma bit_length_pos: "0 < n \<Longrightarrow> 1 \<le> bit_length n"
proof (induction n rule: bit_length.induct)
  case (1 n)
  show ?case
  proof (cases "0 < n div 2")
    case True
    with "1.IH" "1.prems" have "1 \<le> bit_length (n div 2)" by simp
    with "1.prems" show ?thesis by (subst bit_length.simps) simp
  next
    case False
    then have "bit_length (n div 2) = 0" by (subst bit_length.simps) simp
    with "1.prems" show ?thesis by (subst bit_length.simps) simp
  qed
qed

lemma bit_length_bounds:
  "0 < n \<Longrightarrow> 2 ^ nat (bit_length n - 1) \<le> n \<and> n < 2 ^ nat (bit_length n)"
proof (induction n rule: bit_length.induct)
  case (1 n)
  have bl: "bit_length n = bit_length (n div 2) + 1"
    using "1.prems" by (subst bit_length.simps) simp
  show ?case
  proof (cases "0 < n div 2")
    case True
    define b where "b = nat (bit_length (n div 2) - 1)"
    have b1: "1 \<le> bit_length (n div 2)" using True by (rule bit_length_pos)
    then have nb: "nat (bit_length (n div 2)) = Suc b"
      and nb1: "nat (bit_length (n div 2) + 1) = Suc (Suc b)" by (simp_all add: b_def)
    from "1.IH" True "1.prems" have lo: "2 ^ b \<le> n div 2" and hi: "n div 2 < 2 ^ Suc b"
      by (simp_all add: b_def nb)
    have "2 * 2 ^ b \<le> n" using lo by linarith
    moreover have "n < 2 * 2 ^ Suc b" using hi by linarith
    ultimately show ?thesis
      by (simp add: bl nb nb1)
  next
    case False
    with "1.prems" have n1: "n = 1" by linarith
    have "bit_length (n div 2) = 0" using False by (subst bit_length.simps) simp
    with bl n1 show ?thesis by simp
  qed
qed

lemma pow2_powi: "pow2 e = 2 powi e"
  by (simp add: pow2_def power_int_def power_one_over)

lemma bit_length_bounds_rat:
  assumes "0 < n"
  shows "(2::rat) powi (bit_length n - 1) \<le> of_int n" and "of_int n < (2::rat) powi bit_length n"
proof -
  from bit_length_pos [OF assms] have p: "0 \<le> bit_length n - 1" "0 \<le> bit_length n" by simp_all
  from bit_length_bounds [OF assms]
  have "(of_int (2 ^ nat (bit_length n - 1)) :: rat) \<le> of_int n"
    and "(of_int n :: rat) < of_int (2 ^ nat (bit_length n))"
    by (simp_all only: of_int_le_iff of_int_less_iff)
  then show "(2::rat) powi (bit_length n - 1) \<le> of_int n" and "of_int n < (2::rat) powi bit_length n"
    using p by (simp_all add: power_int_nonneg_exp)
qed

lemma floor_log2_test:
  assumes "0 < n" and "0 < d"
  shows "(if 0 \<le> k then d * 2 ^ nat k \<le> n else d \<le> n * 2 ^ nat (- k))
     \<longleftrightarrow> (2::rat) powi k \<le> of_int n / of_int d"
proof (cases "0 \<le> k")
  case True
  have "(d * 2 ^ nat k \<le> n) = ((of_int (d * 2 ^ nat k) :: rat) \<le> of_int n)"
    by (simp only: of_int_le_iff)
  also have "\<dots> = ((2::rat) ^ nat k \<le> of_int n / of_int d)"
    using assms by (simp add: pos_le_divide_eq mult.commute)
  finally show ?thesis using True by (simp add: power_int_nonneg_exp)
next
  case False
  have "(d \<le> n * 2 ^ nat (- k)) = ((of_int d :: rat) \<le> of_int (n * 2 ^ nat (- k)))"
    by (simp only: of_int_le_iff)
  also have "\<dots> = (1 / (2::rat) ^ nat (- k) \<le> of_int n / of_int d)"
    using assms by (simp add: field_simps)
  finally show ?thesis using False by (simp add: power_int_def power_one_over)
qed

lemma floor_log2_correct:
  assumes "0 < n" and "0 < d"
  shows "pow2 (floor_log2 n d) \<le> of_int n / of_int d"
    and "of_int n / of_int d < pow2 (floor_log2 n d + 1)"
proof -
  define k where "k = bit_length n - bit_length d"
  define q :: rat where "q = of_int n / of_int d"
  have dpos: "(0::rat) < of_int d" and npos: "(0::rat) < of_int n" using assms by simp_all
  note bn = bit_length_bounds_rat [OF assms(1)]
  note bd = bit_length_bounds_rat [OF assms(2)]
  have two: "(0::rat) < 2 powi j" for j by (simp add: power_int_def)
  have e1: "k - 1 = (bit_length n - 1) - bit_length d"
    by (simp add: k_def)
  have "(2::rat) powi (k - 1) = 2 powi (bit_length n - 1) / 2 powi bit_length d"
    unfolding e1 by (subst power_int_diff) simp_all
  also have "\<dots> \<le> of_int n / 2 powi bit_length d"
    using bn(1) two by (simp add: divide_right_mono)
  also have "\<dots> < of_int n / of_int d"
    using bd(2) npos dpos by (simp add: divide_strict_left_mono)
  finally have lo: "(2::rat) powi (k - 1) < q" by (simp add: q_def)
  have "q < 2 powi bit_length n / of_int d"
    unfolding q_def using bn(2) dpos by (simp add: divide_strict_right_mono)
  also have "\<dots> \<le> 2 powi bit_length n / 2 powi (bit_length d - 1)"
    by (rule frac_le) (simp_all add: bd(1) two less_imp_le)
  also have "\<dots> = 2 powi (bit_length n - (bit_length d - 1))"
    by (subst power_int_diff) simp_all
  also have "bit_length n - (bit_length d - 1) = k + 1"
    by (simp add: k_def)
  finally have hi: "q < 2 powi (k + 1)" .
  have t: "(if 0 \<le> k then d * 2 ^ nat k \<le> n else d \<le> n * 2 ^ nat (- k))
      = ((2::rat) powi k \<le> q)"
    using floor_log2_test [OF assms, of k] by (simp only: q_def)
  have fl: "floor_log2 n d = (if (2::rat) powi k \<le> q then k else k - 1)"
    unfolding t [symmetric] by (simp add: floor_log2_def Let_def k_def)
  show "pow2 (floor_log2 n d) \<le> of_int n / of_int d"
    using lo by (simp add: fl pow2_powi q_def [symmetric] less_imp_le)
  show "of_int n / of_int d < pow2 (floor_log2 n d + 1)"
    using hi by (simp add: fl pow2_powi q_def [symmetric] not_le)
qed

lemma round_half_even_nearest:
  assumes "0 < d"
  shows "\<bar>of_int (round_half_even n d) - (of_int n / of_int d :: rat)\<bar> \<le> 1 / 2"
proof -
  define q where "q = n div d"
  define r where "r = n mod d"
  have n: "n = d * q + r" by (simp add: q_def r_def)
  have r: "0 \<le> r" "r < d" using assms by (simp_all add: r_def)
  have dpos: "(0::rat) < of_int d" using assms by simp
  have frac: "(of_int n / of_int d :: rat) = of_int q + of_int r / of_int d"
    using dpos by (simp add: n field_simps)
  have r0: "(0::rat) \<le> of_int r / of_int d" using r(1) dpos by simp
  have r1: "(of_int r / of_int d :: rat) < 1" using r(2) dpos by simp
  have half: "(2 * r < d) = ((of_int r / of_int d :: rat) < 1 / 2)"
  proof -
    have "(2 * r < d) = ((of_int (2 * r) :: rat) < of_int d)" by (simp only: of_int_less_iff)
    also have "\<dots> = ((of_int r / of_int d :: rat) < 1 / 2)"
      using dpos by (simp add: field_simps)
    finally show ?thesis .
  qed
  have half': "(d < 2 * r) = (1 / 2 < (of_int r / of_int d :: rat))"
  proof -
    have "(d < 2 * r) = ((of_int d :: rat) < of_int (2 * r))" by (simp only: of_int_less_iff)
    also have "\<dots> = (1 / 2 < (of_int r / of_int d :: rat))"
      using dpos by (simp add: field_simps)
    finally show ?thesis .
  qed
  show ?thesis
    unfolding round_half_even_def Let_def q_def [symmetric] r_def [symmetric] frac half half'
    using r0 r1 by (auto simp: abs_if)
qed

lemma binary64_pos_nearest:
  assumes "0 < n" and "0 < d" and "binary64_pos n d = Finite r"
  shows "\<bar>r - of_int n / of_int d\<bar> \<le> pow2 (max (floor_log2 n d) (- 1022) - 52) / 2"
proof -
  define s where "s = max (floor_log2 n d) (- 1022) - 52"
  define m where "m = (if 0 \<le> s then round_half_even n (d * 2 ^ nat s)
               else round_half_even (n * 2 ^ nat (- s)) d)"
  have "binary64_pos n d =
      (if pow2 1024 \<le> of_int m * pow2 s then PosInf else Finite (of_int m * pow2 s))"
    unfolding binary64_pos_def Let_def m_def s_def by (rule refl)
  with assms(3) have r: "r = of_int m * pow2 s"
    by (simp split: if_splits)
  have ppos: "0 < pow2 s" by (simp add: pow2_def)
  have near: "\<bar>of_int m - of_int n / of_int d / pow2 s\<bar> \<le> 1 / 2"
  proof (cases "0 \<le> s")
    case True
    have "0 < d * 2 ^ nat s" using assms(2) by simp
    from round_half_even_nearest [OF this, of n] True show ?thesis
      by (simp add: m_def pow2_def)
  next
    case False
    from round_half_even_nearest [OF assms(2), of "n * 2 ^ nat (- s)"] False show ?thesis
      by (simp add: m_def pow2_def)
  qed
  have "r - of_int n / of_int d = (of_int m - of_int n / of_int d / pow2 s) * pow2 s"
    using ppos by (simp add: r left_diff_distrib)
  then have "\<bar>r - of_int n / of_int d\<bar> = \<bar>of_int m - of_int n / of_int d / pow2 s\<bar> * \<bar>pow2 s\<bar>"
    by (simp only: abs_mult)
  also have "\<bar>pow2 s\<bar> = pow2 s" using ppos by simp
  finally have "\<bar>r - of_int n / of_int d\<bar> = \<bar>of_int m - of_int n / of_int d / pow2 s\<bar> * pow2 s" .
  also have "\<dots> \<le> 1 / 2 * pow2 s"
    using near ppos by (intro mult_right_mono) simp_all
  finally show ?thesis by (simp add: s_def)
qed

section \<open>Stripped text\<close>

text \<open>
  The text that reaches \<open>float_of_str\<close> has been stripped by the engine, so the
  stripping that \<^verbatim>\<open>float\<close> does itself finds nothing to remove.
\<close>

lemma strip_ends:
  assumes "strip s \<noteq> []"
  shows "\<not> is_space (hd (strip s))" and "\<not> is_space (last (strip s))"
proof -
  define u where "u = dropWhile is_space s"
  define v where "v = dropWhile is_space (rev u)"
  have t: "strip s = rev v" by (simp add: strip_def u_def v_def)
  with assms have v: "v \<noteq> []" by simp
  then have "\<not> is_space (hd v)" unfolding v_def by (rule hd_dropWhile)
  then show "\<not> is_space (last (strip s))" using v by (simp add: t last_rev)
  have "rev u = takeWhile is_space (rev u) @ v" by (simp add: v_def)
  then have "u = rev v @ rev (takeWhile is_space (rev u))"
    by (metis rev_append rev_rev_ident)
  then have "hd u = hd (rev v)" and "u \<noteq> []" using v by (metis hd_append2 rev_is_Nil_conv, auto)
  moreover have "\<not> is_space (hd u)" using \<open>u \<noteq> []\<close> unfolding u_def by (rule hd_dropWhile)
  ultimately show "\<not> is_space (hd (strip s))" by (simp add: t)
qed

lemma strip_strip: "strip (strip s) = strip s"
proof (cases "strip s = []")
  case True
  have "strip [] = []" by (simp add: strip_def)
  with True show ?thesis by simp
next
  case False
  from strip_ends [OF False] have a: "dropWhile is_space (strip s) = strip s"
    and b: "dropWhile is_space (rev (strip s)) = rev (strip s)"
    using False by (simp_all add: dropWhile_eq_self_iff hd_rev)
  show ?thesis
    by (subst (1) strip_def) (simp add: a b)
qed

section \<open>Concrete floats\<close>

text \<open>The floats written \<^verbatim>\<open>3.8\<close>, \<^verbatim>\<open>3.7\<close> and \<^verbatim>\<open>2.0\<close>.\<close>

lemma float_3_8: "binary64 38 10 = Finite (4278419646001971 / 1125899906842624)"
  by (simp add: float_eval)

lemma float_3_7: "decimal_float False 37 (- 1) = Finite (4165829655317709 / 1125899906842624)"
  by (simp add: decimal_float_def float_eval)

lemma parse_3_7: "float_of_str ''3.7'' = Inr (decimal_float False 37 (- 1))"
  by (simp add: str_eval)

lemma float_of_int_2: "float_of_int 2 = Inr (Finite 2)"
  by (simp add: float_of_int_def float_eval)

section \<open>Sorting and selection\<close>

lemma sorted_reverse_stable:
  "filter (\<lambda>x. k x = p) (sorted_reverse k xs) = filter (\<lambda>x. k x = p) xs"
  by (simp add: sorted_reverse_def rev_filter [symmetric] sort_key_stable)

lemma sorted_reverse_descending: "sorted (rev (map k (sorted_reverse k xs)))"
  by (simp add: sorted_reverse_def rev_map)

lemma set_sorted_reverse: "set (sorted_reverse k xs) = set xs"
  by (simp add: sorted_reverse_def)

lemma length_sorted_reverse: "length (sorted_reverse k xs) = length xs"
  by (simp add: sorted_reverse_def)

lemma sorted_reverse_two:
  "sorted_reverse k [a, b] = (if k b \<le> k a then [a, b] else [b, a])"
  by (simp add: sorted_reverse_def)

lemma first_match_skip:
  "\<forall>q \<in> set pre. all_conditions (get_conditions q) facts = Inr False \<Longrightarrow>
   first_match (pre @ rest) facts = first_match rest facts"
  by (induction pre) auto

lemma first_match_hit:
  "all_conditions (get_conditions r) facts = Inr True \<Longrightarrow>
   first_match (r # rest) facts = Inr (action r, name r)"
  by simp

lemma first_match_raise:
  "all_conditions (get_conditions r) facts = Inl e \<Longrightarrow> first_match (r # rest) facts = Inl e"
  by simp

text \<open>
  Where no evaluation raises, the selector returns the first rule of the sorted list
  whose conditions all hold.
\<close>

lemma apply_rules_selects:
  assumes "sorted_reverse get_priority rules = pre @ r # post"
    and "\<forall>q \<in> set pre. all_conditions (get_conditions q) facts = Inr False"
    and "all_conditions (get_conditions r) facts = Inr True"
  shows "apply_rules rules facts = Inr (action r, name r)"
  using assms by (simp add: apply_rules_def first_match_skip)

text \<open>
  The sorted list, seen from the rule at position \<open>i\<close> of the caller's list: before it
  stand the rules of higher priority and the rules of its own priority that the caller
  listed before it, after it all the others.
\<close>

lemma descending_split:
  fixes k :: "'a \<Rightarrow> int"
  shows "sorted (rev (map k xs)) \<Longrightarrow>
   xs = filter (\<lambda>x. p < k x) xs @ filter (\<lambda>x. k x = p) xs @ filter (\<lambda>x. k x < p) xs"
proof (induction xs)
  case Nil
  show ?case by simp
next
  case (Cons x xs)
  from Cons.prems have s: "sorted (rev (map k xs))" and le: "\<forall>y \<in> set xs. k y \<le> k x"
    by (auto simp: sorted_append)
  note IH = Cons.IH [OF s]
  consider "p < k x" | "k x = p" | "k x < p" by linarith
  then show ?case
  proof cases
    case 1
    with IH show ?thesis by simp
  next
    case 2
    with le have "filter (\<lambda>y. p < k y) xs = []" by (auto simp: filter_empty_conv)
    with 2 IH show ?thesis by simp
  next
    case 3
    with le have "filter (\<lambda>y. p < k y) xs = []" and "filter (\<lambda>y. k y = p) xs = []"
      by (auto simp: filter_empty_conv)
    with 3 IH show ?thesis by simp
  qed
qed

lemma sorted_reverse_split:
  assumes "i < length xs"
  shows "sorted_reverse k xs =
    (filter (\<lambda>x. k (xs ! i) < k x) (sorted_reverse k xs)
       @ filter (\<lambda>x. k x = k (xs ! i)) (take i xs))
    @ xs ! i
    # (filter (\<lambda>x. k x = k (xs ! i)) (drop (Suc i) xs)
       @ filter (\<lambda>x. k x < k (xs ! i)) (sorted_reverse k xs))"
proof -
  have "xs = take i xs @ xs ! i # drop (Suc i) xs"
    using assms by (simp add: id_take_nth_drop)
  then have "filter (\<lambda>x. k x = k (xs ! i)) xs =
      filter (\<lambda>x. k x = k (xs ! i)) (take i xs) @ xs ! i
        # filter (\<lambda>x. k x = k (xs ! i)) (drop (Suc i) xs)"
    by (metis (mono_tags, lifting) filter.simps(2) filter_append)
  with descending_split [OF sorted_reverse_descending, of k xs "k (xs ! i)"]
  show ?thesis
    by (simp add: sorted_reverse_stable)
qed

lemma apply_rules_priority_order:
  assumes "i < length rules"
    and "all_conditions (get_conditions (rules ! i)) facts = Inr True"
    and "\<forall>j < length rules. get_priority (rules ! i) < get_priority (rules ! j)
          \<longrightarrow> all_conditions (get_conditions (rules ! j)) facts = Inr False"
    and "\<forall>j < i. get_priority (rules ! j) = get_priority (rules ! i)
          \<longrightarrow> all_conditions (get_conditions (rules ! j)) facts = Inr False"
  shows "apply_rules rules facts = Inr (action (rules ! i), name (rules ! i))"
proof (rule apply_rules_selects [OF sorted_reverse_split [OF assms(1)] _ assms(2)])
  show "\<forall>q \<in> set (filter (\<lambda>x. get_priority (rules ! i) < get_priority x)
                      (sorted_reverse get_priority rules)
                    @ filter (\<lambda>x. get_priority x = get_priority (rules ! i)) (take i rules)).
          all_conditions (get_conditions q) facts = Inr False"
  proof
    fix q
    assume "q \<in> set (filter (\<lambda>x. get_priority (rules ! i) < get_priority x)
                      (sorted_reverse get_priority rules)
                    @ filter (\<lambda>x. get_priority x = get_priority (rules ! i)) (take i rules))"
    then consider "q \<in> set rules" "get_priority (rules ! i) < get_priority q"
      | "q \<in> set (take i rules)" "get_priority q = get_priority (rules ! i)"
      by (auto simp: set_sorted_reverse)
    then show "all_conditions (get_conditions q) facts = Inr False"
    proof cases
      case 1
      then obtain j where "j < length rules" "rules ! j = q" by (auto simp: in_set_conv_nth)
      with 1 assms(3) show ?thesis by auto
    next
      case 2
      then obtain j where "j < length (take i rules)" "take i rules ! j = q"
        by (auto simp: in_set_conv_nth)
      with 2 assms(1,4) show ?thesis by auto
    qed
  qed
qed

lemma apply_rules_no_match:
  assumes "\<forall>q \<in> set rules. all_conditions (get_conditions q) facts = Inr False"
  shows "apply_rules rules facts = Inr (None, None)"
proof -
  have "\<forall>q \<in> set (sorted_reverse get_priority rules).
          all_conditions (get_conditions q) facts = Inr False"
    using assms by (simp add: set_sorted_reverse)
  from first_match_skip [OF this, of "[]"] show ?thesis
    by (simp add: apply_rules_def)
qed

lemma insort_key_map:
  assumes "\<And>x. k (g x) = k x"
  shows "insort_key k (g x) (map g xs) = map g (insort_key k x xs)"
  by (induction xs) (simp_all add: assms)

lemma sort_key_map:
  assumes "\<And>x. k (g x) = k x"
  shows "sort_key k (map g xs) = map g (sort_key k xs)"
proof (induction xs)
  case Nil
  show ?case by simp
next
  case (Cons x xs)
  have "insort_key k (g x) (map g (sort_key k xs)) = map g (insort_key k x (sort_key k xs))"
    using assms by (rule insort_key_map)
  with Cons show ?case by simp
qed

lemma sorted_reverse_map:
  assumes "\<And>x. k (g x) = k x"
  shows "sorted_reverse k (map g xs) = map g (sorted_reverse k xs)"
proof -
  have "sort_key k (map g (rev xs)) = map g (sort_key k (rev xs))"
    using assms by (rule sort_key_map)
  then show ?thesis by (simp add: sorted_reverse_def rev_map)
qed

lemma get_priority_with_defaults: "get_priority (with_defaults r) = get_priority r"
  by (simp add: with_defaults_def get_priority_def)

lemma get_conditions_with_defaults: "get_conditions (with_defaults r) = get_conditions r"
  by (simp add: with_defaults_def get_conditions_def)

lemma first_match_with_defaults:
  "first_match (map with_defaults rs) facts = first_match rs facts"
proof (induction rs)
  case Nil
  show ?case by simp
next
  case (Cons r rs)
  have "action (with_defaults r) = action r" "name (with_defaults r) = name r"
    by (simp_all add: with_defaults_def)
  with Cons show ?case
    by (simp add: get_conditions_with_defaults split: sum.splits)
qed

lemma low_cgpa_false:
  "all_conditions (get_conditions low_cgpa) [''cgpa'' \<mapsto> binary64 38 10] = Inr False"
  by (simp add: get_conditions_def evaluate_condition_def convert_value_def compare_def float_3_8)

section \<open>The store is only read\<close>

lemma all_conditions_st_pure:
  "fact_dicts s facts = Some fs \<Longrightarrow>
   all_conditions_st conds facts s = Some (all_conditions conds fs, s)"
  by (induction conds) (auto simp: evaluate_condition_st_def split: sum.splits)

lemma first_match_st_pure:
  "fact_dicts s facts = Some fs \<Longrightarrow>
   first_match_st rs facts s = Some (first_match rs fs, s)"
  by (induction rs) (auto simp: all_conditions_st_pure split: sum.splits)

lemma apply_rules_st_pure:
  assumes "rule_lists s rules = Some rs" and "fact_dicts s facts = Some fs"
  shows "apply_rules_st rules facts s =
    Some (apply_rules rs fs,
          s\<lparr>rule_lists := (rule_lists s)(fresh s \<mapsto> sorted_reverse get_priority rs),
            fresh := Suc (fresh s)\<rparr>)"
  using assms
  by (simp add: apply_rules_st_def new_list_def apply_rules_def first_match_st_pure)

section \<open>Literals that stay text\<close>

text \<open>
  Text without a dot that is not all digits is not converted: \<^verbatim>\<open>value\<close> is then a
  str, and the four ordering comparisons of a float with a str raise TypeError after
  the \<^verbatim>\<open>try\<close> block has been left.
\<close>

lemma text_literal_kept:
  assumes "CHR ''.'' \<notin> set (strip t)"
    and "\<not> isdigit (remove_char (CHR ''.'') (remove_char (CHR ''-'') (strip t)))"
  shows "convert_value (PStr t) = Inr (Txt (strip t))"
  using assms by (simp add: convert_value_def)

lemma ordering_against_text_raises:
  assumes "facts (py_str field) = Some val"
    and "convert_value raw_value = Inr (Txt t)"
    and "op = PStr ''>'' \<or> op = PStr ''>='' \<or> op = PStr ''<'' \<or> op = PStr ''<=''"
  shows "evaluate_condition (CList [field, op, raw_value]) facts = Inl TypeError"
  using assms by (auto simp: evaluate_condition_def compare_def)

lemma convert_abc: "convert_value (PStr ''abc'') = Inr (Txt ''abc'')"
  by (simp add: convert_value_def str_eval)

lemma convert_comma: "convert_value (PStr ''3,7'') = Inr (Txt ''3,7'')"
  by (simp add: convert_value_def str_eval)

lemma convert_unit: "convert_value (PStr ''4000 RM'') = Inr (Txt ''4000 RM'')"
  by (simp add: convert_value_def str_eval)

lemma convert_na: "convert_value (PStr ''n/a'') = Inr (Txt ''n/a'')"
  by (simp add: convert_value_def str_eval)

lemma convert_empty: "convert_value (PStr []) = Inr (Txt [])"
  by (simp add: convert_value_def str_eval)

lemma convert_3_7: "convert_value (PStr ''3.7'') = Inr (Num (Finite (4165829655317709 / 1125899906842624)))"
  by (simp add: convert_value_def strip_def is_space_def parse_3_7 float_3_7)

lemma merit_typo_raises:
  "all_conditions (get_conditions merit_typo) [''cgpa'' \<mapsto> binary64 38 10] = Inl TypeError"
  by (simp add: get_conditions_def ordering_against_text_raises [OF _ convert_comma])

section \<open>An int literal beyond the range of float\<close>

lemma bit_length_1: "bit_length 1 = 1"
  by (simp add: bit_length.simps)

lemma round_half_even_ge: "n div d \<le> round_half_even n d"
  by (simp add: round_half_even_def Let_def)

lemma bit_length_huge: "bit_length (10 ^ 400) = 1329"
  using bit_length_eq [of 1328 "10 ^ 400"] by simp

lemma floor_log2_huge: "floor_log2 (10 ^ 400) 1 = 1328"
  unfolding floor_log2_def bit_length_huge bit_length_1 by simp

lemma round_huge: "1 \<le> round_half_even (10 ^ 400) (1 * 2 ^ 1276)"
proof -
  have "(1::int) \<le> 10 ^ 400 div (1 * 2 ^ 1276)"
    by (simp add: pos_imp_zdiv_pos_iff int_one_le_iff_zero_less)
  then show ?thesis
    using round_half_even_ge [of "10 ^ 400" "1 * 2 ^ 1276"] by linarith
qed

lemma binary64_huge: "binary64 (10 ^ 400) 1 = PosInf"
proof -
  have "(2::rat) ^ 1024 \<le> 1 * 2 ^ 1276" by simp
  also have "\<dots> \<le> of_int (round_half_even (10 ^ 400) (1 * 2 ^ 1276)) * 2 ^ 1276"
    using round_huge by (intro mult_right_mono) simp_all
  finally have "pow2 1024 \<le> of_int (round_half_even (10 ^ 400) (1 * 2 ^ 1276)) * pow2 1276"
    by (simp add: pow2_def)
  then show ?thesis
    unfolding binary64_def binary64_pos_def floor_log2_huge by (simp add: Let_def)
qed

lemma float_of_int_huge: "float_of_int (10 ^ 400) = Inl OverflowError"
  unfolding float_of_int_def binary64_huge by simp

lemma huge_literal_raises:
  "evaluate_condition (CList [PStr ''cgpa'', PStr ''>='', PInt (10 ^ 400)]) [''cgpa'' \<mapsto> binary64 38 10]
     = Inl OverflowError"
proof -
  have "convert_value (PInt (10 ^ 400)) = Inl OverflowError"
    unfolding convert_value_def by (simp add: float_of_int_huge del: power_numeral)
  then show ?thesis
    unfolding evaluate_condition_def by (simp del: power_numeral)
qed

section \<open>Priority order where nothing raises\<close>

text \<open>
  Two rules whose conditions evaluate without an exception: the higher priority wins
  wherever it stands in the list, and among equal priorities the earlier rule wins.
\<close>

lemma higher_priority_wins:
  assumes "get_priority b < get_priority a"
    and "all_conditions (get_conditions a) facts = Inr True"
  shows "apply_rules [a, b] facts = Inr (action a, name a)
    \<and> apply_rules [b, a] facts = Inr (action a, name a)"
  using assms by (simp add: apply_rules_def sorted_reverse_two)

lemma equal_priority_first_wins:
  assumes "get_priority a = get_priority b"
    and "all_conditions (get_conditions a) facts = Inr True"
  shows "apply_rules [a, b] facts = Inr (action a, name a)"
  using assms by (simp add: apply_rules_def sorted_reverse_two)

lemma equal_priority_second_when_only_match:
  assumes "get_priority a = get_priority b"
    and "all_conditions (get_conditions a) facts = Inr False"
    and "all_conditions (get_conditions b) facts = Inr True"
  shows "apply_rules [a, b] facts = Inr (action b, name b)"
  using assms by (simp add: apply_rules_def sorted_reverse_two)

section \<open>The claims\<close>

text \<open>
  C5. A condition whose field is not a key of the facts is false, whatever its operator
  and literal are: the lookup comes before the conversion of the literal. This holds for
  every condition that unpacks into items and has a first item, of any length.
\<close>

theorem missing_field_is_false:
  assumes "unpack condition = Inr items"
    and "items \<noteq> []" and "facts (py_str (hd items)) = None"
  shows "evaluate_condition condition facts = Inr False"
  using assms by (simp add: evaluate_condition_def hd_conv_nth)

theorem missing_field_is_false_witness:
  "unpack (CList [PStr ''unknown_field'', PStr ''>='', PInt 1])
     = Inr [PStr ''unknown_field'', PStr ''>='', PInt 1]
   \<and> [PStr ''unknown_field'', PStr ''>='', PInt 1] \<noteq> []
   \<and> [''cgpa'' \<mapsto> binary64 35 10] (py_str (hd [PStr ''unknown_field'', PStr ''>='', PInt 1])) = None
   \<and> evaluate_condition (CList [PStr ''unknown_field'', PStr ''>='', PInt 1])
        [''cgpa'' \<mapsto> binary64 35 10] = Inr False"
  using missing_field_is_false
    [of "CList [PStr ''unknown_field'', PStr ''>='', PInt 1]"
        "[PStr ''unknown_field'', PStr ''>='', PInt 1]" "[''cgpa'' \<mapsto> binary64 35 10]"]
  by simp

text \<open>
  C6, as amended. A condition that has a length other than three (a list, and also a
  str or an object) is false; nothing is looked up or converted, so nothing is raised.
  The claim as stated, for every condition that is not a 3-element sequence, fails on
  a condition without a length: for the number \<^verbatim>\<open>5\<close> the call \<^verbatim>\<open>len(condition)\<close>
  raises TypeError, and \<^verbatim>\<open>apply_rules\<close> passes it on.
\<close>

theorem wrong_arity_is_false:
  "unpack condition = Inr items \<Longrightarrow> length items \<noteq> 3 \<Longrightarrow>
   evaluate_condition condition facts = Inr False"
  by (simp add: evaluate_condition_def)

theorem wrong_arity_is_false_witness:
  "unpack (CList [PStr ''cgpa'', PStr ''>='']) = Inr [PStr ''cgpa'', PStr ''>='']
   \<and> length [PStr ''cgpa'', PStr ''>=''] \<noteq> 3
   \<and> evaluate_condition (CList [PStr ''cgpa'', PStr ''>='']) [''cgpa'' \<mapsto> binary64 38 10] = Inr False"
  using wrong_arity_is_false
    [of "CList [PStr ''cgpa'', PStr ''>='']" "[PStr ''cgpa'', PStr ''>='']"
        "[''cgpa'' \<mapsto> binary64 38 10]"]
  by simp

theorem condition_without_length_raises:
  "unpack (CInt 5) = Inl TypeError
   \<and> evaluate_condition (CInt 5) [''cgpa'' \<mapsto> binary64 38 10] = Inl TypeError
   \<and> evaluate_condition (CInt 5) [''cgpa'' \<mapsto> binary64 38 10] \<noteq> Inr False
   \<and> apply_rules [number_condition] [''cgpa'' \<mapsto> binary64 38 10] = Inl TypeError"
  by (simp add: evaluate_condition_def apply_rules_def sorted_reverse_def get_conditions_def)

text \<open>
  C4. A rule whose list of conditions is empty matches whatever the facts are, and when
  the loop of \<^verbatim>\<open>apply_rules\<close> reaches it (every rule before it in the sorted list
  has evaluated to false) its action and name are returned.
\<close>

theorem empty_conditions_match:
  assumes "conditions r = Some []"
  shows "(\<forall>facts. all_conditions (get_conditions r) facts = Inr True)
    \<and> (\<forall>rules pre post facts.
          sorted_reverse get_priority rules = pre @ r # post
          \<longrightarrow> (\<forall>q \<in> set pre. all_conditions (get_conditions q) facts = Inr False)
          \<longrightarrow> apply_rules rules facts = Inr (action r, name r))"
proof -
  have hit: "all_conditions (get_conditions r) facts = Inr True" for facts
    using assms by (simp add: get_conditions_def)
  then show ?thesis
    by (auto intro: apply_rules_selects)
qed

theorem empty_conditions_match_witness:
  "conditions catch_all = Some []
   \<and> sorted_reverse get_priority [catch_all, low_cgpa] = [low_cgpa] @ catch_all # []
   \<and> all_conditions (get_conditions low_cgpa) [''cgpa'' \<mapsto> binary64 38 10] = Inr False
   \<and> all_conditions (get_conditions catch_all) [''cgpa'' \<mapsto> binary64 38 10] = Inr True
   \<and> apply_rules [catch_all, low_cgpa] [''cgpa'' \<mapsto> binary64 38 10]
       = Inr (action catch_all, name catch_all)"
proof -
  have c: "conditions catch_all = Some []" by simp
  have s: "sorted_reverse get_priority [catch_all, low_cgpa] = [low_cgpa] @ catch_all # []"
    by (simp add: sorted_reverse_two get_priority_def)
  have p: "\<forall>q \<in> set [low_cgpa].
      all_conditions (get_conditions q) [''cgpa'' \<mapsto> binary64 38 10] = Inr False"
    using low_cgpa_false by simp
  from empty_conditions_match [OF c] s p low_cgpa_false c show ?thesis
    by blast
qed

text \<open>
  C10. The defaults for absent keys are supplied by \<^verbatim>\<open>apply_rules\<close> itself: a rule
  without \<^verbatim>\<open>priority\<close> has the sort key 0, a rule without \<^verbatim>\<open>conditions\<close> has no
  condition to fail and so matches any facts, and writing the defaults into the rules
  changes neither the sorted order nor the result.
\<close>

theorem absent_keys_default:
  "(priority r = None \<longrightarrow> get_priority r = 0 \<and> priority (with_defaults r) = Some 0)
   \<and> (conditions r = None \<longrightarrow>
        conditions (with_defaults r) = Some []
        \<and> (\<forall>facts rest. all_conditions (get_conditions r) facts = Inr True
              \<and> first_match (r # rest) facts = Inr (action r, name r)))
   \<and> sorted_reverse get_priority (map with_defaults rules)
       = map with_defaults (sorted_reverse get_priority rules)
   \<and> apply_rules (map with_defaults rules) facts = apply_rules rules facts"
proof -
  have "sorted_reverse get_priority (map with_defaults rules)
       = map with_defaults (sorted_reverse get_priority rules)"
    by (rule sorted_reverse_map) (rule get_priority_with_defaults)
  then show ?thesis
    by (simp add: apply_rules_def first_match_with_defaults get_priority_def
        get_conditions_def with_defaults_def)
qed

theorem absent_keys_default_witness:
  "priority bare = None \<and> conditions bare = None
   \<and> get_priority bare = 0
   \<and> all_conditions (get_conditions bare) [''cgpa'' \<mapsto> binary64 38 10] = Inr True
   \<and> sorted_reverse get_priority [below, bare, low_cgpa] = [low_cgpa, bare, below]
   \<and> apply_rules [below, bare, low_cgpa] [''cgpa'' \<mapsto> binary64 38 10]
       = Inr (action bare, name bare)
   \<and> apply_rules (map with_defaults [below, bare, low_cgpa]) [''cgpa'' \<mapsto> binary64 38 10]
       = Inr (action bare, name bare)"
proof -
  have s: "sorted_reverse get_priority [below, bare, low_cgpa] = [low_cgpa, bare, below]"
    by (simp add: sorted_reverse_def get_priority_def)
  have a: "apply_rules [below, bare, low_cgpa] [''cgpa'' \<mapsto> binary64 38 10]
       = Inr (action bare, name bare)"
    unfolding apply_rules_def s using low_cgpa_false by (simp add: get_conditions_def)
  from absent_keys_default [of bare "[below, bare, low_cgpa]" "[''cgpa'' \<mapsto> binary64 38 10]"]
    s a show ?thesis
    by simp
qed

text \<open>
  C8. Neither function changes its inputs. With the rules list and the facts dict as
  objects of a store: \<^verbatim>\<open>evaluate_condition\<close> returns the store it was given; after
  \<^verbatim>\<open>apply_rules\<close> the caller's list holds the same rules in the same order, every
  dict and every list that existed before holds what it held, and the sorted list is a
  new object at an address that was not in use.
\<close>

theorem engine_leaves_inputs_unchanged:
  assumes "rule_lists s rules = Some rs" and "fact_dicts s facts = Some fs" and "rules < fresh s"
  shows "evaluate_condition_st condition facts s = Some (evaluate_condition condition fs, s)
    \<and> (\<exists>res s'. apply_rules_st rules facts s = Some (res, s')
          \<and> rule_lists s' rules = Some rs
          \<and> fact_dicts s' = fact_dicts s
          \<and> (\<forall>a. a < fresh s \<longrightarrow> rule_lists s' a = rule_lists s a)
          \<and> rule_lists s' (fresh s) = Some (sorted_reverse get_priority rs))"
  using assms
  by (simp add: evaluate_condition_st_def apply_rules_st_pure)

theorem engine_leaves_inputs_unchanged_witness:
  "rule_lists store0 0 = Some [catch_all, low_cgpa]
   \<and> fact_dicts store0 1 = Some [''cgpa'' \<mapsto> binary64 38 10]
   \<and> 0 < fresh store0
   \<and> evaluate_condition_st (CList [PStr ''cgpa'', PStr ''>='']) 1 store0 = Some (Inr False, store0)
   \<and> (\<exists>res s'. apply_rules_st 0 1 store0 = Some (res, s')
          \<and> rule_lists s' 0 = Some [catch_all, low_cgpa]
          \<and> fact_dicts s' = fact_dicts store0
          \<and> rule_lists s' 2 = Some [low_cgpa, catch_all])"
proof -
  have s: "sorted_reverse get_priority [catch_all, low_cgpa] = [low_cgpa, catch_all]"
    by (simp add: sorted_reverse_two get_priority_def)
  have e: "evaluate_condition (CList [PStr ''cgpa'', PStr ''>='']) [''cgpa'' \<mapsto> binary64 38 10]
      = Inr False"
    by (simp add: evaluate_condition_def)
  from engine_leaves_inputs_unchanged
    [of store0 0 "[catch_all, low_cgpa]" 1 "[''cgpa'' \<mapsto> binary64 38 10]"
        "CList [PStr ''cgpa'', PStr ''>='']"]
  show ?thesis
    unfolding s e by fastforce
qed

text \<open>
  C9. The result of \<^verbatim>\<open>apply_rules\<close> is a function of the rules and the facts alone:
  two calls whose arguments hold the same rules and the same facts return the same
  result (the same exception, if one is raised), whatever else the store holds, and so
  does the same call made a second time in the store the first one left.
\<close>

theorem apply_rules_deterministic:
  assumes "rule_lists s1 r1 = Some R" and "fact_dicts s1 f1 = Some F"
    and "rule_lists s2 r2 = Some R" and "fact_dicts s2 f2 = Some F"
  shows "map_option fst (apply_rules_st r1 f1 s1) = Some (apply_rules R F)
    \<and> map_option fst (apply_rules_st r2 f2 s2) = map_option fst (apply_rules_st r1 f1 s1)
    \<and> (r1 < fresh s1 \<longrightarrow>
         (\<exists>res s' s''. apply_rules_st r1 f1 s1 = Some (res, s')
            \<and> apply_rules_st r1 f1 s' = Some (res, s'')))"
  using assms
  by (simp add: apply_rules_st_pure)

theorem apply_rules_deterministic_witness:
  "rule_lists store0 0 = Some [catch_all, low_cgpa]
   \<and> fact_dicts store0 1 = Some [''cgpa'' \<mapsto> binary64 38 10]
   \<and> rule_lists store1 3 = Some [catch_all, low_cgpa]
   \<and> fact_dicts store1 7 = Some [''cgpa'' \<mapsto> binary64 38 10]
   \<and> map_option fst (apply_rules_st 0 1 store0) = Some (Inr (action catch_all, name catch_all))
   \<and> map_option fst (apply_rules_st 3 7 store1) = Some (Inr (action catch_all, name catch_all))"
proof -
  have s: "sorted_reverse get_priority [catch_all, low_cgpa] = [low_cgpa, catch_all]"
    by (simp add: sorted_reverse_two get_priority_def)
  have a: "apply_rules [catch_all, low_cgpa] [''cgpa'' \<mapsto> binary64 38 10]
       = Inr (action catch_all, name catch_all)"
    unfolding apply_rules_def s using low_cgpa_false by (simp add: get_conditions_def)
  from apply_rules_deterministic
    [of store0 0 "[catch_all, low_cgpa]" 1 "[''cgpa'' \<mapsto> binary64 38 10]" store1 3 7]
  show ?thesis
    unfolding a by simp
qed

text \<open>
  C3. The first example of the claim holds: the text \<^verbatim>\<open>"3.7"\<close> is converted and
  \<^verbatim>\<open>3.8 >= 3.7\<close> is true. The second does not: \<^verbatim>\<open>"abc"\<close> is kept as text, and
  comparing the fact with it by \<^verbatim>\<open>>=\<close> raises TypeError instead of returning false.
\<close>

theorem literal_coercion_examples:
  "evaluate_condition (CList [PStr ''cgpa'', PStr ''>='', PStr ''3.7'']) [''cgpa'' \<mapsto> binary64 38 10]
     = Inr True
   \<and> evaluate_condition (CList [PStr ''cgpa'', PStr ''>='', PStr ''abc'']) [''cgpa'' \<mapsto> binary64 38 10]
     = Inl TypeError"
proof -
  have "evaluate_condition (CList [PStr ''cgpa'', PStr ''>='', PStr ''3.7''])
      [''cgpa'' \<mapsto> binary64 38 10] = Inr True"
    by (simp add: evaluate_condition_def convert_3_7 compare_def float_3_8 float_le_def)
  moreover have "evaluate_condition (CList [PStr ''cgpa'', PStr ''>='', PStr ''abc''])
      [''cgpa'' \<mapsto> binary64 38 10] = Inl TypeError"
    by (simp add: ordering_against_text_raises [OF _ convert_abc])
  ultimately show ?thesis by simp
qed


text \<open>
  C2. The engine does raise on well-formed data: an ordering comparison against a text
  literal that is not numeric (here \<^verbatim>\<open>"n/a"\<close> and the empty string) raises TypeError,
  an int literal too large for a float raises OverflowError, and \<^verbatim>\<open>apply_rules\<close>
  passes the exception on.
\<close>

theorem data_shape_problems_raise:
  "evaluate_condition (CList [PStr ''cgpa'', PStr ''<'', PStr ''n/a'']) [''cgpa'' \<mapsto> binary64 38 10]
     = Inl TypeError
   \<and> evaluate_condition (CList [PStr ''cgpa'', PStr ''>'', PStr []]) [''cgpa'' \<mapsto> binary64 38 10]
     = Inl TypeError
   \<and> evaluate_condition (CList [PStr ''cgpa'', PStr ''>='', PInt (10 ^ 400)])
       [''cgpa'' \<mapsto> binary64 38 10] = Inl OverflowError
   \<and> apply_rules [merit_typo] [''cgpa'' \<mapsto> binary64 38 10] = Inl TypeError"
proof -
  have a: "evaluate_condition (CList [PStr ''cgpa'', PStr ''<'', PStr ''n/a''])
      [''cgpa'' \<mapsto> binary64 38 10] = Inl TypeError"
    by (simp add: ordering_against_text_raises [OF _ convert_na])
  have b: "evaluate_condition (CList [PStr ''cgpa'', PStr ''>'', PStr []])
      [''cgpa'' \<mapsto> binary64 38 10] = Inl TypeError"
    by (simp add: ordering_against_text_raises [OF _ convert_empty])
  have "sorted_reverse get_priority [merit_typo] = [merit_typo]"
    by (simp add: sorted_reverse_def)
  then have c: "apply_rules [merit_typo] [''cgpa'' \<mapsto> binary64 38 10] = Inl TypeError"
    unfolding apply_rules_def using merit_typo_raises by (simp add: first_match_raise)
  from a b c huge_literal_raises show ?thesis
    by blast
qed

text \<open>
  C7. A ruleset in which no rule's conditions all hold, and for which \<^verbatim>\<open>apply_rules\<close>
  does not return the no-match signal: the first rule is false, the evaluation of the
  second raises TypeError, and the exception leaves \<^verbatim>\<open>apply_rules\<close>.
\<close>

theorem no_match_raises:
  "all_conditions (get_conditions low_cgpa)
      [''cgpa'' \<mapsto> binary64 38 10, ''family_income'' \<mapsto> Finite 5000] = Inr False
   \<and> all_conditions (get_conditions income_typo)
      [''cgpa'' \<mapsto> binary64 38 10, ''family_income'' \<mapsto> Finite 5000] = Inl TypeError
   \<and> apply_rules [low_cgpa, income_typo]
      [''cgpa'' \<mapsto> binary64 38 10, ''family_income'' \<mapsto> Finite 5000] = Inl TypeError"
proof -
  let ?f = "[''cgpa'' \<mapsto> binary64 38 10, ''family_income'' \<mapsto> Finite 5000]"
  have l: "all_conditions (get_conditions low_cgpa) ?f = Inr False"
    by (simp add: get_conditions_def evaluate_condition_def convert_value_def compare_def
        float_3_8)
  have i: "all_conditions (get_conditions income_typo) ?f = Inl TypeError"
    by (simp add: get_conditions_def ordering_against_text_raises [OF _ convert_unit])
  have s: "sorted_reverse get_priority [low_cgpa, income_typo] = [low_cgpa, income_typo]"
    by (simp add: sorted_reverse_two get_priority_def)
  have "apply_rules [low_cgpa, income_typo] ?f = Inl TypeError"
    unfolding apply_rules_def s using l i by simp
  with l i show ?thesis by simp
qed

text \<open>
  C1. A ruleset whose first fully-matching rule is not returned: after the sort the rule
  of priority 100 comes first, its condition raises TypeError, and the rule of priority
  50, which matches, is never reached. (Where no rule that is evaluated raises, the
  order is as claimed: \<open>apply_rules_priority_order\<close>, and for two rules
  \<open>higher_priority_wins\<close>, \<open>equal_priority_first_wins\<close>,
  \<open>equal_priority_second_when_only_match\<close>.)
\<close>

theorem selection_stops_at_raising_rule:
  "all_conditions (get_conditions catch_all) [''cgpa'' \<mapsto> binary64 38 10] = Inr True
   \<and> all_conditions (get_conditions merit_typo) [''cgpa'' \<mapsto> binary64 38 10] = Inl TypeError
   \<and> sorted_reverse get_priority [catch_all, merit_typo] = [merit_typo, catch_all]
   \<and> apply_rules [catch_all, merit_typo] [''cgpa'' \<mapsto> binary64 38 10] = Inl TypeError"
proof -
  have s: "sorted_reverse get_priority [catch_all, merit_typo] = [merit_typo, catch_all]"
    by (simp add: sorted_reverse_two get_priority_def)
  have "apply_rules [catch_all, merit_typo] [''cgpa'' \<mapsto> binary64 38 10] = Inl TypeError"
    unfolding apply_rules_def s by (rule first_match_raise) (rule merit_typo_raises)
  with s merit_typo_raises show ?thesis
    by (simp add: get_conditions_def)
qed


end
